theory Spec2Isabelle
  imports Complex_Main "HOL-Library.Multiset"
begin

section \<open>OpenField: QA alerting and survey aggregation\<close>

text \<open>
  The development embeds the survey store of \<^verbatim>\<open>db.py\<close>, the writers of
  \<^verbatim>\<open>surveys.py\<close> and \<^verbatim>\<open>app.py\<close>, and the readers of \<^verbatim>\<open>supervision.py\<close>.

  Conventions of the embedding:
  \<^item> a table is the list of its rows in insertion (rowid) order;
  \<^item> a nullable column is an \<open>option\<close>, SQL \<open>NULL\<close> and Python \<open>None\<close> being \<open>None\<close>;
  \<^item> Python \<open>int\<close> is \<open>int\<close>; Python \<open>float\<close> is \<open>real\<close>, so IEEE rounding, infinities
    and NaN are not modelled;
  \<^item> text is \<open>string\<close>, read as ASCII code points; \<open>str.strip\<close> and \<open>str.upper\<close> are
    modelled on ASCII;
  \<^item> a raised exception is the \<open>Inl\<close> branch of a sum;
  \<^item> the clock (\<^verbatim>\<open>_now_iso()\<close>) is an argument of every writer.
\<close>

subsection \<open>Python string helpers\<close>

text \<open>The ASCII characters for which \<^verbatim>\<open>str.isspace\<close> holds: TAB, LF, VT, FF, CR,
  FS, GS, RS, US and SPACE.\<close>

definition py_isspace :: "char \<Rightarrow> bool" where
  "py_isspace c = (c \<in> set [CHR 0x09, CHR 0x0A, CHR 0x0B, CHR 0x0C, CHR 0x0D,
                             CHR 0x1C, CHR 0x1D, CHR 0x1E, CHR 0x1F, CHR 0x20])"

text \<open>\<^verbatim>\<open>s.strip()\<close>: drop leading and trailing whitespace.\<close>

definition py_strip :: "string \<Rightarrow> string" where
  "py_strip s = rev (dropWhile py_isspace (rev (dropWhile py_isspace s)))"

definition py_upper_char :: "char \<Rightarrow> char" where
  "py_upper_char c =
     (case map_of (zip ''abcdefghijklmnopqrstuvwxyz'' ''ABCDEFGHIJKLMNOPQRSTUVWXYZ'') c of
        Some u \<Rightarrow> u
      | None \<Rightarrow> c)"

text \<open>\<^verbatim>\<open>s.upper()\<close>.\<close>

definition py_upper :: "string \<Rightarrow> string" where
  "py_upper s = map py_upper_char s"

text \<open>\<^verbatim>\<open>(x or "")\<close> for an optional string \<open>x\<close>.\<close>

definition or_empty :: "string option \<Rightarrow> string" where
  "or_empty x = (case x of None \<Rightarrow> [] | Some s \<Rightarrow> s)"

text \<open>\<^verbatim>\<open>xs[:k]\<close>: a negative \<open>k\<close> counts from the end.\<close>

definition py_slice_to :: "int \<Rightarrow> 'a list \<Rightarrow> 'a list" where
  "py_slice_to k xs =
     (if 0 \<le> k then take (nat k) xs else take (length xs - nat (- k)) xs)"

text \<open>\<^verbatim>\<open>xs.sort(key=f, reverse=True)\<close>: the stable sort under the reversed
  comparison of the keys, so records with equal keys keep their order.\<close>

definition py_sort_reverse :: "('a \<Rightarrow> real) \<Rightarrow> 'a list \<Rightarrow> 'a list" where
  "py_sort_reverse f xs = sort_key (\<lambda>x. - f x) xs"

subsection \<open>The store (\<^verbatim>\<open>db.py\<close>, \<^verbatim>\<open>init_db\<close>)\<close>

record facility_row =
  f_id :: int
  f_name :: string
  f_created_at :: string

record survey_row =
  s_id :: int
  s_facility_id :: int
  s_template_id :: "int option"
  s_survey_type :: string
  s_enumerator_name :: string
  s_status :: string
  s_created_at :: string

record answer_row =
  a_id :: int
  a_survey_id :: int
  a_template_question_id :: "int option"
  a_question :: string
  a_answer :: "string option"
  a_answer_source :: "string option"
  a_confidence_level :: "string option"
  a_is_missing :: int
  a_missing_reason :: "string option"
  a_created_at :: string

record db =
  facilities :: "facility_row list"
  surveys :: "survey_row list"
  survey_answers :: "answer_row list"

definition empty_db :: db where
  "empty_db = \<lparr>facilities = [], surveys = [], survey_answers = []\<rparr>"

text \<open>\<^verbatim>\<open>cur.lastrowid\<close> after an insert into an \<open>AUTOINCREMENT\<close> table from which
  no row is ever deleted: one more than the largest id in use, 1 for an empty table.\<close>

definition next_rowid :: "int list \<Rightarrow> int" where
  "next_rowid ids = foldr max ids 0 + 1"

datatype error = ValueError string

subsection \<open>Survey detail and quality summary (\<^verbatim>\<open>get_survey_details\<close>)\<close>

text \<open>The header tuple, the answer tuples and the \<open>qa\<close> dictionary of
  \<^verbatim>\<open>get_survey_details\<close>.\<close>

record header =
  h_sid :: int
  h_facility_id :: int
  h_facility_name :: string
  h_template_id :: "int option"
  h_survey_type :: string
  h_enumerator :: string
  h_status :: string
  h_created_at :: string

record answer_tuple =
  t_answer_id :: int
  t_template_question_id :: "int option"
  t_question :: string
  t_answer :: "string option"
  t_answer_source :: "string option"
  t_confidence_level :: "string option"
  t_is_missing :: int
  t_missing_reason :: "string option"

record qa =
  total_answers :: nat
  missing_count :: nat
  low_confidence_count :: nat
  no_source_count :: nat
  no_confidence_count :: nat

text \<open>Lines 153--159: the five counts over the answer tuples.\<close>

definition qa_summary :: "answer_tuple list \<Rightarrow> qa" where
  "qa_summary answers =
     \<lparr>total_answers = length answers,
      missing_count = length (filter (\<lambda>a. t_is_missing a = 1) answers),
      low_confidence_count =
        length (filter (\<lambda>a. py_upper (py_strip (or_empty (t_confidence_level a))) = ''LOW'') answers),
      no_source_count =
        length (filter (\<lambda>a. py_strip (or_empty (t_answer_source a)) = []) answers),
      no_confidence_count =
        length (filter (\<lambda>a. py_strip (or_empty (t_confidence_level a)) = []) answers)\<rparr>"

text \<open>The tuple built from a row of \<^verbatim>\<open>survey_answers\<close> (lines 140--151).\<close>

definition answer_tuple_of :: "answer_row \<Rightarrow> answer_tuple" where
  "answer_tuple_of r =
     \<lparr>t_answer_id = a_id r,
      t_template_question_id = a_template_question_id r,
      t_question = a_question r,
      t_answer = a_answer r,
      t_answer_source = a_answer_source r,
      t_confidence_level = a_confidence_level r,
      t_is_missing = a_is_missing r,
      t_missing_reason = a_missing_reason r\<rparr>"

text \<open>The header query: \<^verbatim>\<open>surveys s JOIN facilities f ON f.id = s.facility_id
  WHERE s.id = ?\<close>, an inner join.\<close>

definition header_rows :: "db \<Rightarrow> int \<Rightarrow> (survey_row \<times> facility_row) list" where
  "header_rows d sid =
     concat (map (\<lambda>s. map (\<lambda>f. (s, f)) (filter (\<lambda>f. f_id f = s_facility_id s) (facilities d)))
                 (filter (\<lambda>s. s_id s = sid) (surveys d)))"

definition answers_of_survey :: "db \<Rightarrow> int \<Rightarrow> answer_row list" where
  "answers_of_survey d sid = filter (\<lambda>a. a_survey_id a = sid) (survey_answers d)"

definition get_survey_details :: "db \<Rightarrow> int \<Rightarrow> error + (header \<times> answer_tuple list \<times> qa)" where
  "get_survey_details d survey_id =
     (case header_rows d survey_id of
        [] \<Rightarrow> Inl (ValueError ''Survey not found.'')
      | (s, f) # _ \<Rightarrow>
          (let hd_tuple =
                 \<lparr>h_sid = s_id s, h_facility_id = s_facility_id s, h_facility_name = f_name f,
                  h_template_id = s_template_id s, h_survey_type = s_survey_type s,
                  h_enumerator = s_enumerator_name s, h_status = s_status s,
                  h_created_at = s_created_at s\<rparr>;
               answers = map answer_tuple_of (sort_key a_id (answers_of_survey d survey_id))
           in Inr (hd_tuple, answers, qa_summary answers)))"

subsection \<open>The alert engine (\<^verbatim>\<open>qa_alerts_dashboard\<close>)\<close>

text \<open>The row of the aggregate query of lines 199--210 over the answers of one
  survey, after the \<^verbatim>\<open>int(m[...] or 0)\<close> conversions: \<open>COUNT(*)\<close>, \<open>SUM(is_missing)\<close>
  and three \<open>SUM(CASE WHEN ... THEN 1 ELSE 0 END)\<close>. The comparisons are SQL's: text
  equality is exact, and a \<open>NULL\<close> is not equal to \<open>'LOW'\<close>.\<close>

record aggregate =
  total :: int
  missing :: int
  low_conf :: int
  no_source :: int
  no_conf :: int

definition aggregate_of :: "answer_row list \<Rightarrow> aggregate" where
  "aggregate_of rows =
     \<lparr>total = int (length rows),
      missing = sum_list (map a_is_missing rows),
      low_conf = int (length (filter (\<lambda>a. a_confidence_level a = Some ''LOW'') rows)),
      no_source =
        int (length (filter (\<lambda>a. a_answer_source a = None \<or> a_answer_source a = Some []) rows)),
      no_conf =
        int (length (filter (\<lambda>a. a_confidence_level a = None \<or> a_confidence_level a = Some [])
               rows))\<rparr>"

definition answer_aggregate :: "db \<Rightarrow> int \<Rightarrow> aggregate" where
  "answer_aggregate d sid = aggregate_of (answers_of_survey d sid)"

text \<open>Lines 222--225: \<^verbatim>\<open>(count * 100.0) / total\<close>.\<close>

definition pct :: "int \<Rightarrow> int \<Rightarrow> real" where
  "pct n tot = (real_of_int n * 100) / real_of_int tot"

text \<open>Lines 227--235: the flags, appended in a fixed order.\<close>

definition flags_of :: "real \<Rightarrow> real \<Rightarrow> real \<Rightarrow> real \<Rightarrow> real \<Rightarrow> real \<Rightarrow> real \<Rightarrow> real \<Rightarrow> string list" where
  "flags_of missing_pct low_conf_pct no_source_pct no_conf_pct
            missing_threshold_pct low_conf_threshold_pct no_source_threshold_pct no_conf_threshold_pct =
     (if missing_pct \<ge> missing_threshold_pct then [''MISSING''] else []) @
     (if low_conf_pct \<ge> low_conf_threshold_pct then [''LOW_CONF''] else []) @
     (if no_source_pct \<ge> no_source_threshold_pct then [''NO_SOURCE''] else []) @
     (if no_conf_pct \<ge> no_conf_threshold_pct then [''NO_CONF''] else [])"

record alert =
  survey_id :: int
  facility_id :: int
  facility_name :: string
  template_id :: "int option"
  survey_type :: string
  enumerator_name :: string
  status :: string
  created_at :: string
  alert_total_answers :: int
  flags :: "string list"
  severity :: real

text \<open>Lines 240--242: the facility name, \<^verbatim>\<open>"-"\<close> when no facility row has the id.\<close>

definition facility_name_of :: "db \<Rightarrow> int \<Rightarrow> string" where
  "facility_name_of d fid =
     (case filter (\<lambda>f. f_id f = fid) (facilities d) of [] \<Rightarrow> ''-'' | f # _ \<Rightarrow> f_name f)"

text \<open>The body of the loop over the selected surveys (lines 196--258): \<open>None\<close> is
  \<^verbatim>\<open>continue\<close>, \<open>Some\<close> is the appended alert.\<close>

definition alert_of_survey :: "db \<Rightarrow> real \<Rightarrow> real \<Rightarrow> real \<Rightarrow> real \<Rightarrow> survey_row \<Rightarrow> alert option" where
  "alert_of_survey d missing_threshold_pct low_conf_threshold_pct no_source_threshold_pct
                   no_conf_threshold_pct s =
     (let sid = s_id s;
          m = answer_aggregate d sid;
          tot = total m
      in if tot = 0 then None
         else
           (let missing_pct = pct (missing m) tot;
                low_conf_pct = pct (low_conf m) tot;
                no_source_pct = pct (no_source m) tot;
                no_conf_pct = pct (no_conf m) tot;
                fl = flags_of missing_pct low_conf_pct no_source_pct no_conf_pct
                       missing_threshold_pct low_conf_threshold_pct no_source_threshold_pct
                       no_conf_threshold_pct
            in if fl = [] then None
               else Some
                 \<lparr>survey_id = sid,
                  facility_id = s_facility_id s,
                  facility_name = facility_name_of d (s_facility_id s),
                  template_id = s_template_id s,
                  survey_type = s_survey_type s,
                  enumerator_name = s_enumerator_name s,
                  status = s_status s,
                  created_at = s_created_at s,
                  alert_total_answers = tot,
                  flags = fl,
                  severity = missing_pct + low_conf_pct + no_source_pct + no_conf_pct\<rparr>))"

text \<open>Line 179: \<^verbatim>\<open>(status_filter or "COMPLETED").strip().upper()\<close>.\<close>

definition normalize_status_filter :: "string \<Rightarrow> string" where
  "normalize_status_filter status_filter =
     py_upper (py_strip (if status_filter = [] then ''COMPLETED'' else status_filter))"

text \<open>Lines 183--192: \<^verbatim>\<open>SELECT ... FROM surveys WHERE status = ? ORDER BY id DESC\<close>.\<close>

definition surveys_with_status :: "db \<Rightarrow> string \<Rightarrow> survey_row list" where
  "surveys_with_status d st = rev (sort_key s_id (filter (\<lambda>s. s_status s = st) (surveys d)))"

text \<open>The list \<^verbatim>\<open>alerts\<close> after the loop and after the sort of line 260.\<close>

definition scanned_alerts :: "db \<Rightarrow> string \<Rightarrow> real \<Rightarrow> real \<Rightarrow> real \<Rightarrow> real \<Rightarrow> alert list" where
  "scanned_alerts d status_filter missing_threshold_pct low_conf_threshold_pct
                  no_source_threshold_pct no_conf_threshold_pct =
     List.map_filter
       (alert_of_survey d missing_threshold_pct low_conf_threshold_pct no_source_threshold_pct
          no_conf_threshold_pct)
       (surveys_with_status d (normalize_status_filter status_filter))"

definition ranked_alerts :: "db \<Rightarrow> string \<Rightarrow> real \<Rightarrow> real \<Rightarrow> real \<Rightarrow> real \<Rightarrow> alert list" where
  "ranked_alerts d status_filter missing_threshold_pct low_conf_threshold_pct
                 no_source_threshold_pct no_conf_threshold_pct =
     py_sort_reverse severity
       (scanned_alerts d status_filter missing_threshold_pct low_conf_threshold_pct
          no_source_threshold_pct no_conf_threshold_pct)"

definition qa_alerts_dashboard ::
  "db \<Rightarrow> string \<Rightarrow> real \<Rightarrow> real \<Rightarrow> real \<Rightarrow> real \<Rightarrow> int \<Rightarrow> alert list" where
  "qa_alerts_dashboard d status_filter missing_threshold_pct low_conf_threshold_pct
                       no_source_threshold_pct no_conf_threshold_pct limit =
     py_slice_to limit
       (ranked_alerts d status_filter missing_threshold_pct low_conf_threshold_pct
          no_source_threshold_pct no_conf_threshold_pct)"

subsection \<open>The writers (\<^verbatim>\<open>surveys.py\<close>, \<^verbatim>\<open>facilities.py\<close>, \<^verbatim>\<open>app.py\<close>)\<close>

text \<open>\<^verbatim>\<open>create_survey\<close>: both branches insert a row with status \<^verbatim>\<open>'DRAFT'\<close>; the
  schema of \<^verbatim>\<open>init_db\<close> has the column \<^verbatim>\<open>template_id\<close>, and the older schema leaves
  it \<open>NULL\<close>. \<open>has_template_id\<close> is \<^verbatim>\<open>"template_id" in cols\<close>.\<close>

definition create_survey ::
  "db \<Rightarrow> bool \<Rightarrow> int \<Rightarrow> string \<Rightarrow> string \<Rightarrow> int option \<Rightarrow> string \<Rightarrow> db \<times> int" where
  "create_survey d has_template_id fid stype enum tid now =
     (let new_id = next_rowid (map s_id (surveys d));
          row = \<lparr>s_id = new_id, s_facility_id = fid,
                 s_template_id = (if has_template_id then tid else None),
                 s_survey_type = stype, s_enumerator_name = enum,
                 s_status = ''DRAFT'', s_created_at = now\<rparr>
      in (d\<lparr>surveys := surveys d @ [row]\<rparr>, new_id))"

text \<open>\<^verbatim>\<open>add_answer\<close>. The arguments have their annotated types, so
  \<^verbatim>\<open>(question or "")\<close> is \<open>question\<close>. \<open>cols\<close> is the column list of
  \<^verbatim>\<open>survey_answers\<close>; a column that is not inserted takes its default (\<open>NULL\<close>, and 0
  for \<^verbatim>\<open>is_missing\<close>). The result pairs the store after the call with the raised
  error or the returned id.\<close>

definition add_answer ::
  "db \<Rightarrow> string list \<Rightarrow> int \<Rightarrow> string \<Rightarrow> string \<Rightarrow> int option \<Rightarrow> string option \<Rightarrow> string option \<Rightarrow>
   int \<Rightarrow> string option \<Rightarrow> string \<Rightarrow> db \<times> (error + int)" where
  "add_answer d cols sid question answer template_question_id answer_source confidence_level
              is_missing missing_reason now =
     (let q = py_strip question;
          a = py_strip answer
      in if q = [] then (d, Inl (ValueError ''question is required''))
         else if a = [] \<and> is_missing = 0
         then (d, Inl (ValueError ''answer is required unless is_missing=1''))
         else
           (let new_id = next_rowid (map a_id (survey_answers d));
                row =
                  \<lparr>a_id = new_id, a_survey_id = sid,
                   a_template_question_id =
                     (if ''template_question_id'' \<in> set cols then template_question_id else None),
                   a_question = q, a_answer = Some a,
                   a_answer_source = (if ''answer_source'' \<in> set cols then answer_source else None),
                   a_confidence_level =
                     (if ''confidence_level'' \<in> set cols then confidence_level else None),
                   a_is_missing = (if ''is_missing'' \<in> set cols then is_missing else 0),
                   a_missing_reason = (if ''missing_reason'' \<in> set cols then missing_reason else None),
                   a_created_at = now\<rparr>
            in (d\<lparr>survey_answers := survey_answers d @ [row]\<rparr>, Inr new_id)))"

text \<open>The columns of \<^verbatim>\<open>survey_answers\<close> that \<^verbatim>\<open>init_db\<close> creates.\<close>

definition survey_answers_columns :: "string list" where
  "survey_answers_columns =
     [''id'', ''survey_id'', ''template_question_id'', ''question'', ''answer'', ''answer_source'',
      ''confidence_level'', ''is_missing'', ''missing_reason'', ''created_at'']"

text \<open>\<^verbatim>\<open>complete_survey\<close>: \<^verbatim>\<open>UPDATE surveys SET status='COMPLETED' WHERE id = ?\<close>.\<close>

definition complete_survey :: "db \<Rightarrow> int \<Rightarrow> db" where
  "complete_survey d sid =
     d\<lparr>surveys := map (\<lambda>s. if s_id s = sid then s\<lparr>s_status := ''COMPLETED''\<rparr> else s) (surveys d)\<rparr>"

text \<open>\<^verbatim>\<open>add_facility\<close>, with the columns the readers above use.\<close>

definition add_facility :: "db \<Rightarrow> string \<Rightarrow> string \<Rightarrow> db \<times> (error + int)" where
  "add_facility d name now =
     (let n = py_strip name
      in if n = [] then (d, Inl (ValueError ''Facility name cannot be empty.''))
         else
           (let new_id = next_rowid (map f_id (facilities d))
            in (d\<lparr>facilities := facilities d @ [\<lparr>f_id = new_id, f_name = n, f_created_at = now\<rparr>]\<rparr>,
                Inr new_id)))"

text \<open>\<^verbatim>\<open>_upsert_template_answer\<close> of \<^verbatim>\<open>app.py\<close>: update the first answer row of the
  pair (survey, template question) if there is one, insert through \<^verbatim>\<open>add_answer\<close>
  otherwise. An error of \<^verbatim>\<open>add_answer\<close> propagates.\<close>

definition upsert_template_answer ::
  "db \<Rightarrow> int \<Rightarrow> int \<Rightarrow> string \<Rightarrow> string \<Rightarrow> string option \<Rightarrow> string option \<Rightarrow> int \<Rightarrow>
   string option \<Rightarrow> string \<Rightarrow> db \<times> (error + unit)" where
  "upsert_template_answer d sid template_question_id question_text answer source confidence
                          is_missing missing_reason now =
     (case filter (\<lambda>a. a_survey_id a = sid \<and> a_template_question_id a = Some template_question_id)
             (survey_answers d) of
        row # _ \<Rightarrow>
          (d\<lparr>survey_answers :=
               map (\<lambda>a. if a_id a = a_id row
                         then a\<lparr>a_question := question_text, a_answer := Some answer,
                                a_answer_source := source, a_confidence_level := confidence,
                                a_is_missing := is_missing, a_missing_reason := missing_reason\<rparr>
                         else a)
                   (survey_answers d)\<rparr>,
           Inr ())
      | [] \<Rightarrow>
          (case add_answer d survey_answers_columns sid question_text answer
                  (Some template_question_id) source confidence is_missing missing_reason now of
             (d', Inl e) \<Rightarrow> (d', Inl e)
           | (d', Inr _) \<Rightarrow> (d', Inr ())))"

text \<open>The backfill at the end of \<^verbatim>\<open>init_db\<close>: \<^verbatim>\<open>UPDATE t SET created_at=? WHERE
  created_at IS NULL OR created_at=''\<close> on each table.\<close>

definition init_db :: "db \<Rightarrow> string \<Rightarrow> db" where
  "init_db d now =
     \<lparr>facilities = map (\<lambda>f. if f_created_at f = [] then f\<lparr>f_created_at := now\<rparr> else f) (facilities d),
      surveys = map (\<lambda>s. if s_created_at s = [] then s\<lparr>s_created_at := now\<rparr> else s) (surveys d),
      survey_answers =
        map (\<lambda>a. if a_created_at a = [] then a\<lparr>a_created_at := now\<rparr> else a) (survey_answers d)\<rparr>"

text \<open>The operations that write to the store, and a run of a sequence of them. A call
  that raises leaves the store as it was.\<close>

datatype operation =
    CreateSurvey bool int string string "int option" string
  | AddAnswer "string list" int string string "int option" "string option" "string option" int
      "string option" string
  | CompleteSurvey int
  | AddFacility string string
  | UpsertTemplateAnswer int int string string "string option" "string option" int "string option"
      string
  | InitDb string

fun apply_operation :: "db \<Rightarrow> operation \<Rightarrow> db" where
  "apply_operation d (CreateSurvey has_tid fid stype enum tid now) =
     fst (create_survey d has_tid fid stype enum tid now)"
| "apply_operation d (AddAnswer cols sid q a tqid src conf is_missing reason now) =
     fst (add_answer d cols sid q a tqid src conf is_missing reason now)"
| "apply_operation d (CompleteSurvey sid) = complete_survey d sid"
| "apply_operation d (AddFacility name now) = fst (add_facility d name now)"
| "apply_operation d (UpsertTemplateAnswer sid tqid q a src conf is_missing reason now) =
     fst (upsert_template_answer d sid tqid q a src conf is_missing reason now)"
| "apply_operation d (InitDb now) = init_db d now"

definition run_operations :: "db \<Rightarrow> operation list \<Rightarrow> db" where
  "run_operations d ops = foldl apply_operation d ops"

text \<open>The status of the survey with a given id, \<open>None\<close> when there is no such survey.\<close>

definition status_of :: "db \<Rightarrow> int \<Rightarrow> string option" where
  "status_of d sid = map_option s_status (List.find (\<lambda>s. s_id s = sid) (surveys d))"

subsection \<open>The enumerator performance aggregator (specification, section 4.3)\<close>





subsection \<open>The quality summary as the specification words it\<close>




subsection \<open>Example data\<close>



text \<open>A store with one facility and three completed surveys: survey 1 has two answers,
  one of them missing; survey 2 has one answer of low confidence; survey 3 has no
  answer. \<open>demo_operations\<close> builds it from the empty store.\<close>

definition demo_survey :: "int \<Rightarrow> string \<Rightarrow> survey_row" where
  "demo_survey i enum =
     \<lparr>s_id = i, s_facility_id = 1, s_template_id = None, s_survey_type = ''Routine'',
      s_enumerator_name = enum, s_status = ''COMPLETED'', s_created_at = ''2026-01-01T00:00:00''\<rparr>"

definition demo_answer ::
  "int \<Rightarrow> int \<Rightarrow> string \<Rightarrow> string \<Rightarrow> string \<Rightarrow> string \<Rightarrow> int \<Rightarrow> string option \<Rightarrow> answer_row" where
  "demo_answer i sid q a src conf is_missing reason =
     \<lparr>a_id = i, a_survey_id = sid, a_template_question_id = None, a_question = q,
      a_answer = Some a, a_answer_source = Some src, a_confidence_level = Some conf,
      a_is_missing = is_missing, a_missing_reason = reason, a_created_at = ''2026-01-01T00:00:00''\<rparr>"

definition demo_db :: db where
  "demo_db =
     \<lparr>facilities = [\<lparr>f_id = 1, f_name = ''Clinic A'', f_created_at = ''2026-01-01T00:00:00''\<rparr>],
      surveys = [demo_survey 1 ''Ada'', demo_survey 2 ''Bayo'', demo_survey 3 ''Ada''],
      survey_answers =
        [demo_answer 1 1 ''Q1'' ''A'' ''INTERVIEW'' ''HIGH'' 0 None,
         demo_answer 2 1 ''Q2'' ''__MISSING__'' ''RECORD'' ''HIGH'' 1 (Some ''REFUSED''),
         demo_answer 3 2 ''Q1'' ''A'' ''INTERVIEW'' ''LOW'' 0 None]\<rparr>"

definition demo_operations :: "operation list" where
  "demo_operations =
     [AddFacility ''Clinic A'' ''2026-01-01T00:00:00'',
      CreateSurvey True 1 ''Routine'' ''Ada'' None ''2026-01-01T00:00:00'',
      CreateSurvey True 1 ''Routine'' ''Bayo'' None ''2026-01-01T00:00:00'',
      CreateSurvey True 1 ''Routine'' ''Ada'' None ''2026-01-01T00:00:00'',
      AddAnswer survey_answers_columns 1 ''Q1'' ''A'' None (Some ''INTERVIEW'') (Some ''HIGH'') 0 None
        ''2026-01-01T00:00:00'',
      AddAnswer survey_answers_columns 1 ''Q2'' ''__MISSING__'' None (Some ''RECORD'') (Some ''HIGH'') 1
        (Some ''REFUSED'') ''2026-01-01T00:00:00'',
      AddAnswer survey_answers_columns 2 ''Q1'' ''A'' None (Some ''INTERVIEW'') (Some ''LOW'') 0 None
        ''2026-01-01T00:00:00'',
      CompleteSurvey 1, CompleteSurvey 2, CompleteSurvey 3]"

definition demo_alert :: "int \<Rightarrow> string \<Rightarrow> int \<Rightarrow> string list \<Rightarrow> real \<Rightarrow> alert" where
  "demo_alert sid enum tot fl sev =
     \<lparr>survey_id = sid, facility_id = 1, facility_name = ''Clinic A'', template_id = None,
      survey_type = ''Routine'', enumerator_name = enum, status = ''COMPLETED'',
      created_at = ''2026-01-01T00:00:00'', alert_total_answers = tot, flags = fl, severity = sev\<rparr>"

text \<open>A store in which survey 1 refers to facility 999, which does not exist:
  \<^verbatim>\<open>create_survey(999, "Routine", "Ada")\<close> on the empty store (the foreign key of
  \<^verbatim>\<open>surveys.facility_id\<close> is declared, and SQLite does not enforce it unless asked to).\<close>

definition dangling_db :: db where
  "dangling_db = fst (create_survey empty_db True 999 ''Routine'' ''Ada'' None ''2026-01-01T00:00:00'')"

text \<open>A store whose survey 1 has an answer of confidence \<^verbatim>\<open>"low"\<close> and an answer
  whose source is a single space, both written through \<^verbatim>\<open>add_answer\<close>.\<close>

definition mixed_case_db :: db where
  "mixed_case_db =
     run_operations empty_db
       [AddFacility ''Clinic A'' ''2026-01-01T00:00:00'',
        CreateSurvey True 1 ''Routine'' ''Ada'' None ''2026-01-01T00:00:00'',
        AddAnswer survey_answers_columns 1 ''Q1'' ''A'' None (Some ''INTERVIEW'') (Some ''low'') 0 None
          ''2026-01-01T00:00:00'',
        AddAnswer survey_answers_columns 1 ''Q2'' ''A'' None (Some '' '') (Some ''HIGH'') 0 None
          ''2026-01-01T00:00:00'',
        CompleteSurvey 1]"

text \<open>Further operations on the example store, among them a second completion of
  survey 1 and writes to its answers.\<close>

definition more_operations :: "operation list" where
  "more_operations =
     [CreateSurvey True 1 ''Routine'' ''Cy'' None ''2026-01-02T00:00:00'',
      AddAnswer survey_answers_columns 1 ''Q3'' ''B'' None None None 0 None ''2026-01-02T00:00:00'',
      UpsertTemplateAnswer 1 7 ''Q4'' ''__MISSING__'' None None 1 (Some ''REFUSED'')
        ''2026-01-02T00:00:00'',
      CompleteSurvey 1, CompleteSurvey 4, InitDb ''2026-01-03T00:00:00'']"

section \<open>Properties\<close>

subsection \<open>Strings\<close>




subsection \<open>The quality summary\<close>






subsection \<open>The alert engine\<close>

lemma set_map_filter: "set (List.map_filter f xs) = {y. \<exists>x \<in> set xs. f x = Some y}"
  by (induction xs) (auto split: option.splits)


lemma set_ranked_alerts:
  "set (ranked_alerts d sf mt lt st ct) = set (scanned_alerts d sf mt lt st ct)"
  by (simp add: ranked_alerts_def py_sort_reverse_def)

lemma set_surveys_with_status:
  "set (surveys_with_status d st) = {s \<in> set (surveys d). s_status s = st}"
  by (simp add: surveys_with_status_def)

lemma in_scanned_alertsD:
  assumes "a \<in> set (scanned_alerts d sf mt lt st ct)"
  obtains s where "s \<in> set (surveys d)" "s_status s = normalize_status_filter sf"
    "alert_of_survey d mt lt st ct s = Some a"
  using assms by (auto simp: scanned_alerts_def set_map_filter set_surveys_with_status)


lemma alert_of_survey_SomeD:
  assumes "alert_of_survey d mt lt st ct s = Some a"
  shows "survey_id a = s_id s"
    and "total (answer_aggregate d (s_id s)) \<noteq> 0"
    and "flags a =
           flags_of (pct (missing (answer_aggregate d (s_id s))) (total (answer_aggregate d (s_id s))))
                    (pct (low_conf (answer_aggregate d (s_id s))) (total (answer_aggregate d (s_id s))))
                    (pct (no_source (answer_aggregate d (s_id s))) (total (answer_aggregate d (s_id s))))
                    (pct (no_conf (answer_aggregate d (s_id s))) (total (answer_aggregate d (s_id s))))
                    mt lt st ct"
    and "flags a \<noteq> []"
    and "severity a =
           pct (missing (answer_aggregate d (s_id s))) (total (answer_aggregate d (s_id s))) +
           pct (low_conf (answer_aggregate d (s_id s))) (total (answer_aggregate d (s_id s))) +
           pct (no_source (answer_aggregate d (s_id s))) (total (answer_aggregate d (s_id s))) +
           pct (no_conf (answer_aggregate d (s_id s))) (total (answer_aggregate d (s_id s)))"
  using assms by (auto simp: alert_of_survey_def Let_def split: if_splits)
















lemma flag_mono:
  fixes p t t' :: real
  assumes "t' \<le> t"
  shows "set (if p \<ge> t then [tag] else []) \<subseteq> set (if p \<ge> t' then [tag] else [])"
  using assms by (cases "p \<ge> t") simp_all

lemma flags_of_mono:
  assumes "mt' \<le> mt" "lt' \<le> lt" "st' \<le> st" "ct' \<le> ct"
  shows "set (flags_of mp lp sp cp mt lt st ct) \<subseteq> set (flags_of mp lp sp cp mt' lt' st' ct')"
  unfolding flags_of_def set_append
  by (intro Un_mono flag_mono assms)

lemma alert_of_survey_mono:
  assumes le: "mt' \<le> mt" "lt' \<le> lt" "st' \<le> st" "ct' \<le> ct"
    and a: "alert_of_survey d mt lt st ct s = Some a"
  shows "\<exists>fl'. alert_of_survey d mt' lt' st' ct' s = Some (a\<lparr>flags := fl'\<rparr>)
              \<and> set (flags a) \<subseteq> set fl'"
proof -
  let ?m = "answer_aggregate d (s_id s)"
  let ?fl = "flags_of (pct (missing ?m) (total ?m)) (pct (low_conf ?m) (total ?m))
              (pct (no_source ?m) (total ?m)) (pct (no_conf ?m) (total ?m))"
  note f = alert_of_survey_SomeD [OF a]
  have sub: "set (?fl mt lt st ct) \<subseteq> set (?fl mt' lt' st' ct')"
    using le by (rule flags_of_mono)
  with f(3,4) have ne: "?fl mt' lt' st' ct' \<noteq> []" by auto
  have "alert_of_survey d mt' lt' st' ct' s = Some (a\<lparr>flags := ?fl mt' lt' st' ct'\<rparr>)"
    using a f(2) f(4) ne unfolding f(3)
    by (simp add: alert_of_survey_def Let_def split: if_splits) (erule subst, simp)
  moreover have "set (flags a) \<subseteq> set (?fl mt' lt' st' ct')"
    using sub unfolding f(3) .
  ultimately show ?thesis by blast
qed

lemma length_map_filter_le: "length (List.map_filter f xs) \<le> length xs"
  by (induction xs) (auto split: option.splits)

lemma length_ranked_alerts_le:
  "length (ranked_alerts d sf mt lt st ct) \<le> length (surveys d)"
proof -
  have "length (ranked_alerts d sf mt lt st ct) = length (scanned_alerts d sf mt lt st ct)"
    by (simp add: ranked_alerts_def py_sort_reverse_def)
  also have "\<dots> \<le> length (surveys_with_status d (normalize_status_filter sf))"
    unfolding scanned_alerts_def by (rule length_map_filter_le)
  also have "\<dots> \<le> length (surveys d)"
    by (simp add: surveys_with_status_def)
  finally show ?thesis .
qed

lemma dashboard_untruncated:
  assumes "int (length (surveys d)) \<le> limit"
  shows "qa_alerts_dashboard d sf mt lt st ct limit = ranked_alerts d sf mt lt st ct"
proof -
  have "int (length (ranked_alerts d sf mt lt st ct)) \<le> limit"
    using length_ranked_alerts_le [of d sf mt lt st ct] assms by simp
  then show ?thesis
    by (simp add: qa_alerts_dashboard_def py_slice_to_def)
qed

lemma ranked_alerts_mono:
  assumes "mt' \<le> mt" "lt' \<le> lt" "st' \<le> st" "ct' \<le> ct"
    and "a \<in> set (ranked_alerts d sf mt lt st ct)"
  shows "\<exists>fl'. a\<lparr>flags := fl'\<rparr> \<in> set (ranked_alerts d sf mt' lt' st' ct')
              \<and> set (flags a) \<subseteq> set fl'"
proof -
  from assms(5) have "a \<in> set (scanned_alerts d sf mt lt st ct)"
    by (simp only: set_ranked_alerts)
  then obtain s where s: "s \<in> set (surveys d)" "s_status s = normalize_status_filter sf"
    "alert_of_survey d mt lt st ct s = Some a"
    by (rule in_scanned_alertsD)
  from alert_of_survey_mono [OF assms(1-4) s(3)] obtain fl' where
    a': "alert_of_survey d mt' lt' st' ct' s = Some (a\<lparr>flags := fl'\<rparr>)"
      "set (flags a) \<subseteq> set fl'" by blast
  from s(1,2) a'(1) have "a\<lparr>flags := fl'\<rparr> \<in> set (scanned_alerts d sf mt' lt' st' ct')"
    unfolding scanned_alerts_def set_map_filter set_surveys_with_status by blast
  then have "a\<lparr>flags := fl'\<rparr> \<in> set (ranked_alerts d sf mt' lt' st' ct')"
    by (simp only: set_ranked_alerts)
  with a'(2) show ?thesis by blast
qed

text \<open>
  C7, as amended. On a fixed store, lowering thresholds only adds flags and alerts to
  the ranked list before its truncation to the limit: every alert of the list is, with
  the same fields and a flag list that contains its flags, an alert of the list under
  the lower thresholds. The same holds of the output of \<^verbatim>\<open>qa_alerts_dashboard\<close>
  whenever the limit is at least the number of stored surveys.
\<close>

theorem lowering_thresholds_monotone:
  assumes "mt' \<le> mt" "lt' \<le> lt" "st' \<le> st" "ct' \<le> ct"
  shows "(a \<in> set (ranked_alerts d sf mt lt st ct) \<longrightarrow>
            (\<exists>fl'. a\<lparr>flags := fl'\<rparr> \<in> set (ranked_alerts d sf mt' lt' st' ct')
                  \<and> set (flags a) \<subseteq> set fl'))
       \<and> (int (length (surveys d)) \<le> limit
            \<and> a \<in> set (qa_alerts_dashboard d sf mt lt st ct limit) \<longrightarrow>
            (\<exists>fl'. a\<lparr>flags := fl'\<rparr> \<in> set (qa_alerts_dashboard d sf mt' lt' st' ct' limit)
                  \<and> set (flags a) \<subseteq> set fl'))"
proof (intro conjI impI)
  assume "a \<in> set (ranked_alerts d sf mt lt st ct)"
  with assms show "\<exists>fl'. a\<lparr>flags := fl'\<rparr> \<in> set (ranked_alerts d sf mt' lt' st' ct')
                  \<and> set (flags a) \<subseteq> set fl'"
    by (rule ranked_alerts_mono)
next
  assume h: "int (length (surveys d)) \<le> limit
             \<and> a \<in> set (qa_alerts_dashboard d sf mt lt st ct limit)"
  then have big: "int (length (surveys d)) \<le> limit" by (rule conjunct1)
  from h have "a \<in> set (ranked_alerts d sf mt lt st ct)"
    by (simp add: dashboard_untruncated [OF big])
  with assms have "\<exists>fl'. a\<lparr>flags := fl'\<rparr> \<in> set (ranked_alerts d sf mt' lt' st' ct')
                  \<and> set (flags a) \<subseteq> set fl'"
    by (rule ranked_alerts_mono)
  then show "\<exists>fl'. a\<lparr>flags := fl'\<rparr> \<in> set (qa_alerts_dashboard d sf mt' lt' st' ct' limit)
                  \<and> set (flags a) \<subseteq> set fl'"
    by (simp add: dashboard_untruncated [OF big])
qed

subsection \<open>The alert engine on the example store\<close>

lemma strip_simps:
  "py_strip ''Clinic A'' = ''Clinic A''" "py_strip ''Q1'' = ''Q1''" "py_strip ''Q2'' = ''Q2''"
  "py_strip ''A'' = ''A''" "py_strip ''__MISSING__'' = ''__MISSING__''"
  by (simp_all add: py_strip_def py_isspace_def)

lemma demo_reachable: "run_operations empty_db demo_operations = demo_db"
  by (simp add: run_operations_def demo_operations_def demo_db_def empty_db_def
      create_survey_def add_answer_def complete_survey_def add_facility_def next_rowid_def
      survey_answers_columns_def strip_simps Let_def demo_survey_def demo_answer_def)

lemma norm_completed: "normalize_status_filter ''COMPLETED'' = ''COMPLETED''"
  by (simp add: normalize_status_filter_def py_strip_def py_isspace_def py_upper_def py_upper_char_def)

lemma demo_scan:
  "surveys_with_status demo_db ''COMPLETED'' =
     [demo_survey 3 ''Ada'', demo_survey 2 ''Bayo'', demo_survey 1 ''Ada'']"
  by (simp add: surveys_with_status_def demo_db_def demo_survey_def)

lemma demo_answers:
  "answers_of_survey demo_db 1 =
     [demo_answer 1 1 ''Q1'' ''A'' ''INTERVIEW'' ''HIGH'' 0 None,
      demo_answer 2 1 ''Q2'' ''__MISSING__'' ''RECORD'' ''HIGH'' 1 (Some ''REFUSED'')]"
  "answers_of_survey demo_db 2 = [demo_answer 3 2 ''Q1'' ''A'' ''INTERVIEW'' ''LOW'' 0 None]"
  "answers_of_survey demo_db 3 = []"
  by (simp_all add: answers_of_survey_def demo_db_def demo_answer_def)

lemma demo_agg:
  "answer_aggregate demo_db 1 = \<lparr>total = 2, missing = 1, low_conf = 0, no_source = 0, no_conf = 0\<rparr>"
  "answer_aggregate demo_db 2 = \<lparr>total = 1, missing = 0, low_conf = 1, no_source = 0, no_conf = 0\<rparr>"
  "answer_aggregate demo_db 3 = \<lparr>total = 0, missing = 0, low_conf = 0, no_source = 0, no_conf = 0\<rparr>"
  by (simp_all add: answer_aggregate_def demo_answers aggregate_of_def demo_answer_def)

lemma demo_facility_name: "facility_name_of demo_db 1 = ''Clinic A''"
  by (simp add: facility_name_of_def demo_db_def)

lemma demo_alert_of_survey:
  "alert_of_survey demo_db mt lt st ct (demo_survey 1 ''Ada'') =
     (if flags_of 50 0 0 0 mt lt st ct = [] then None
      else Some (demo_alert 1 ''Ada'' 2 (flags_of 50 0 0 0 mt lt st ct) 50))"
  "alert_of_survey demo_db mt lt st ct (demo_survey 2 ''Bayo'') =
     (if flags_of 0 100 0 0 mt lt st ct = [] then None
      else Some (demo_alert 2 ''Bayo'' 1 (flags_of 0 100 0 0 mt lt st ct) 100))"
  "alert_of_survey demo_db mt lt st ct (demo_survey 3 ''Ada'') = None"
  by (simp_all add: alert_of_survey_def demo_survey_def demo_agg demo_facility_name pct_def
      demo_alert_def Let_def)

lemma demo_ranked_before:
  "ranked_alerts demo_db ''COMPLETED'' 50 200 200 200 = [demo_alert 1 ''Ada'' 2 [''MISSING''] 50]"
  by (simp add: ranked_alerts_def scanned_alerts_def norm_completed demo_scan
      demo_alert_of_survey flags_of_def py_sort_reverse_def)

lemma demo_ranked_after:
  "ranked_alerts demo_db ''COMPLETED'' 50 100 200 200 =
     [demo_alert 2 ''Bayo'' 1 [''LOW_CONF''] 100, demo_alert 1 ''Ada'' 2 [''MISSING''] 50]"
  by (simp add: ranked_alerts_def scanned_alerts_def norm_completed demo_scan
      demo_alert_of_survey flags_of_def py_sort_reverse_def demo_alert_def)

lemma demo_dashboard_before:
  "qa_alerts_dashboard demo_db ''COMPLETED'' 50 200 200 200 1 = [demo_alert 1 ''Ada'' 2 [''MISSING''] 50]"
  by (simp add: qa_alerts_dashboard_def demo_ranked_before py_slice_to_def)

lemma demo_dashboard_after:
  "qa_alerts_dashboard demo_db ''COMPLETED'' 50 100 200 200 1 =
     [demo_alert 2 ''Bayo'' 1 [''LOW_CONF''] 100]"
  by (simp add: qa_alerts_dashboard_def demo_ranked_after py_slice_to_def)

text \<open>With limit 1, lowering the low-confidence threshold from 200 to 100 brings in
  survey 2 at severity 100, which takes the only place: the alert of survey 1, returned
  before, is no longer returned.\<close>

theorem lowering_threshold_evicts_counterexample:
  "demo_alert 1 ''Ada'' 2 [''MISSING''] 50 \<in> set (qa_alerts_dashboard demo_db ''COMPLETED'' 50 200 200 200 1)
   \<and> (100::real) \<le> 200
   \<and> 1 \<notin> survey_id ` set (qa_alerts_dashboard demo_db ''COMPLETED'' 50 100 200 200 1)"
  by (simp add: demo_dashboard_before demo_dashboard_after demo_alert_def)

theorem lowering_thresholds_monotone_witness:
  "(50::real) \<le> 50 \<and> (100::real) \<le> 200 \<and> (200::real) \<le> 200
   \<and> demo_alert 1 ''Ada'' 2 [''MISSING''] 50 \<in> set (ranked_alerts demo_db ''COMPLETED'' 50 200 200 200)
   \<and> (\<exists>fl'. (demo_alert 1 ''Ada'' 2 [''MISSING''] 50)\<lparr>flags := fl'\<rparr>
               \<in> set (ranked_alerts demo_db ''COMPLETED'' 50 100 200 200)
             \<and> set (flags (demo_alert 1 ''Ada'' 2 [''MISSING''] 50)) \<subseteq> set fl')
   \<and> int (length (surveys demo_db)) \<le> 3
   \<and> demo_alert 1 ''Ada'' 2 [''MISSING''] 50
        \<in> set (qa_alerts_dashboard demo_db ''COMPLETED'' 50 200 200 200 3)
   \<and> (\<exists>fl'. (demo_alert 1 ''Ada'' 2 [''MISSING''] 50)\<lparr>flags := fl'\<rparr>
               \<in> set (qa_alerts_dashboard demo_db ''COMPLETED'' 50 100 200 200 3)
             \<and> set (flags (demo_alert 1 ''Ada'' 2 [''MISSING''] 50)) \<subseteq> set fl')"
proof -
  have m: "demo_alert 1 ''Ada'' 2 [''MISSING''] 50
             \<in> set (ranked_alerts demo_db ''COMPLETED'' 50 200 200 200)"
    by (simp add: demo_ranked_before)
  have n: "int (length (surveys demo_db)) \<le> 3"
    by (simp add: demo_db_def)
  have k: "demo_alert 1 ''Ada'' 2 [''MISSING''] 50
             \<in> set (qa_alerts_dashboard demo_db ''COMPLETED'' 50 200 200 200 3)"
    by (simp add: qa_alerts_dashboard_def demo_ranked_before py_slice_to_def)
  have le: "(50::real) \<le> 50" "(100::real) \<le> 200" "(200::real) \<le> 200" by simp_all
  note t = lowering_thresholds_monotone [OF le(1) le(2) le(3) le(3),
      of "demo_alert 1 ''Ada'' 2 [''MISSING''] 50" demo_db "''COMPLETED''" 3]
  from t m n k le show ?thesis by blast
qed





subsection \<open>Writers\<close>

lemma foldr_max_ge: "x \<in> set ids \<Longrightarrow> x \<le> foldr max ids (0::int)"
  by (induction ids) auto

lemma next_rowid_fresh: "next_rowid ids \<notin> set ids"
proof
  assume "next_rowid ids \<in> set ids"
  then have "next_rowid ids \<le> foldr max ids 0" by (rule foldr_max_ge)
  then show False by (simp add: next_rowid_def)
qed



subsection \<open>Survey status\<close>

lemma find_append_None:
  "List.find P xs = None \<Longrightarrow> List.find P (xs @ ys) = List.find P ys"
  by (induction xs) (auto split: if_splits)

lemma find_append_Some:
  "List.find P xs = Some x \<Longrightarrow> List.find P (xs @ ys) = Some x"
  by (induction xs) (auto split: if_splits)

lemma find_map_same_id:
  assumes "\<And>s. s_id (g s) = s_id s"
  shows "List.find (\<lambda>s. s_id s = sid) (map g xs) = map_option g (List.find (\<lambda>s. s_id s = sid) xs)"
  by (induction xs) (simp_all add: assms)

lemma surveys_add_answer [simp]:
  "surveys (fst (add_answer d cols sid q a tqid src conf is_missing reason now)) = surveys d"
  by (simp add: add_answer_def Let_def)

lemma surveys_add_facility [simp]:
  "surveys (fst (add_facility d name now)) = surveys d"
  by (simp add: add_facility_def Let_def)

lemma surveys_upsert_template_answer [simp]:
  "surveys (fst (upsert_template_answer d sid tqid q a src conf is_missing reason now)) = surveys d"
proof (cases "filter (\<lambda>a. a_survey_id a = sid \<and> a_template_question_id a = Some tqid)
                (survey_answers d)")
  case Nil
  obtain d' r where r: "add_answer d survey_answers_columns sid q a (Some tqid) src conf is_missing
      reason now = (d', r)" by (cases "add_answer d survey_answers_columns sid q a (Some tqid) src
      conf is_missing reason now")
  have "surveys (fst (add_answer d survey_answers_columns sid q a (Some tqid) src conf is_missing
          reason now)) = surveys d"
    by (rule surveys_add_answer)
  then have "surveys d' = surveys d" unfolding r by simp
  then show ?thesis
    unfolding upsert_template_answer_def Nil r by (cases r) simp_all
next
  case (Cons row rest)
  show ?thesis unfolding upsert_template_answer_def Cons by simp
qed

lemma status_of_create_survey_old:
  assumes "status_of d sid = Some st"
  shows "status_of (fst (create_survey d has_tid fid stype enum tid now)) sid = Some st"
proof -
  from assms obtain s where s: "List.find (\<lambda>s. s_id s = sid) (surveys d) = Some s" "s_status s = st"
    by (auto simp: status_of_def)
  from s(1) have "\<And>ys. List.find (\<lambda>s. s_id s = sid) (surveys d @ ys) = Some s"
    by (rule find_append_Some)
  with s(2) show ?thesis
    by (simp add: status_of_def create_survey_def Let_def)
qed

lemma status_of_create_survey_new:
  "status_of (fst (create_survey d has_tid fid stype enum tid now))
     (snd (create_survey d has_tid fid stype enum tid now)) = Some ''DRAFT''"
proof -
  let ?n = "next_rowid (map s_id (surveys d))"
  have fresh: "?n \<notin> set (map s_id (surveys d))" by (rule next_rowid_fresh)
  have "\<not> (\<exists>x. x \<in> set (surveys d) \<and> s_id x = ?n)"
  proof
    assume "\<exists>x. x \<in> set (surveys d) \<and> s_id x = ?n"
    then obtain x where "x \<in> set (surveys d)" "s_id x = ?n" by blast
    then have "?n \<in> set (map s_id (surveys d))" by force
    with fresh show False by blast
  qed
  then have "List.find (\<lambda>s. s_id s = ?n) (surveys d) = None"
    unfolding find_None_iff .
  then have "\<And>ys. List.find (\<lambda>s. s_id s = ?n) (surveys d @ ys) = List.find (\<lambda>s. s_id s = ?n) ys"
    by (rule find_append_None)
  then show ?thesis
    by (simp add: status_of_def create_survey_def Let_def)
qed

lemma find_id_SomeD: "List.find (\<lambda>s. s_id s = sid) xs = Some s \<Longrightarrow> s_id s = sid"
  by (induction xs) (auto split: if_splits)

lemma status_of_complete_same:
  "status_of (complete_survey d sid) sid = map_option (\<lambda>_. ''COMPLETED'') (status_of d sid)"
proof -
  let ?g = "\<lambda>s. if s_id s = sid then s\<lparr>s_status := ''COMPLETED''\<rparr> else s"
  have m: "List.find (\<lambda>s. s_id s = sid) (map ?g (surveys d)) =
        map_option ?g (List.find (\<lambda>s. s_id s = sid) (surveys d))"
    by (rule find_map_same_id) simp
  show ?thesis
  proof (cases "List.find (\<lambda>s. s_id s = sid) (surveys d)")
    case None
    then show ?thesis unfolding status_of_def complete_survey_def by (simp add: m)
  next
    case (Some s)
    then have "s_id s = sid" by (rule find_id_SomeD)
    with Some show ?thesis unfolding status_of_def complete_survey_def by (simp add: m)
  qed
qed

lemma status_of_complete_other:
  assumes "sid \<noteq> sid'"
  shows "status_of (complete_survey d sid') sid = status_of d sid"
proof -
  let ?g = "\<lambda>s. if s_id s = sid' then s\<lparr>s_status := ''COMPLETED''\<rparr> else s"
  have m: "List.find (\<lambda>s. s_id s = sid) (map ?g (surveys d)) =
        map_option ?g (List.find (\<lambda>s. s_id s = sid) (surveys d))"
    by (rule find_map_same_id) simp
  show ?thesis
  proof (cases "List.find (\<lambda>s. s_id s = sid) (surveys d)")
    case None
    then show ?thesis unfolding status_of_def complete_survey_def by (simp add: m)
  next
    case (Some s)
    then have "s_id s = sid" by (rule find_id_SomeD)
    with assms have "s_id s \<noteq> sid'" by simp
    with Some show ?thesis unfolding status_of_def complete_survey_def by (simp add: m)
  qed
qed

lemma status_of_init_db: "status_of (init_db d now) sid = status_of d sid"
proof -
  let ?g = "\<lambda>s. if s_created_at s = [] then s\<lparr>s_created_at := now\<rparr> else s"
  have m: "List.find (\<lambda>s. s_id s = sid) (map ?g (surveys d)) =
        map_option ?g (List.find (\<lambda>s. s_id s = sid) (surveys d))"
    by (rule find_map_same_id) simp
  show ?thesis
  proof (cases "List.find (\<lambda>s. s_id s = sid) (surveys d)")
    case None
    with m show ?thesis by (simp add: status_of_def init_db_def)
  next
    case (Some s)
    with m show ?thesis by (simp add: status_of_def init_db_def)
  qed
qed

lemma status_of_apply_operation:
  assumes "status_of d sid = Some st"
  shows "status_of (apply_operation d op) sid =
           (if op = CompleteSurvey sid then Some ''COMPLETED'' else Some st)"
proof (cases op)
  case (CreateSurvey h fid stype enum tid now)
  then show ?thesis using assms by (simp add: status_of_create_survey_old)
next
  case (AddAnswer cols s q a tqid src conf m reason now)
  then show ?thesis using assms by (simp add: status_of_def)
next
  case (CompleteSurvey s)
  show ?thesis
  proof (cases "s = sid")
    case True
    with CompleteSurvey assms show ?thesis by (simp add: status_of_complete_same)
  next
    case False
    then have "sid \<noteq> s" by simp
    then have "status_of (complete_survey d s) sid = status_of d sid"
      by (rule status_of_complete_other)
    with CompleteSurvey False assms show ?thesis by simp
  qed
next
  case (AddFacility name now)
  then show ?thesis using assms by (simp add: status_of_def)
next
  case (UpsertTemplateAnswer s tqid q a src conf m reason now)
  then show ?thesis using assms by (simp add: status_of_def)
next
  case (InitDb now)
  then show ?thesis using assms by (simp add: status_of_init_db)
qed

lemma completed_stays:
  "status_of d sid = Some ''COMPLETED'' \<Longrightarrow>
   status_of (run_operations d ops) sid = Some ''COMPLETED''"
proof (induction ops arbitrary: d)
  case Nil
  then show ?case by (simp add: run_operations_def)
next
  case (Cons op ops)
  from Cons.prems have "status_of (apply_operation d op) sid = Some ''COMPLETED''"
    by (simp add: status_of_apply_operation)
  then have "status_of (run_operations (apply_operation d op) ops) sid = Some ''COMPLETED''"
    by (rule Cons.IH)
  then show ?case by (simp add: run_operations_def)
qed

text \<open>
  C9. A survey is created with status \<^verbatim>\<open>DRAFT\<close>; an operation leaves the status of
  an existing survey as it is, except the completion of that survey, which sets it to
  \<^verbatim>\<open>COMPLETED\<close>; and no sequence of operations changes the status of a survey that is
  \<^verbatim>\<open>COMPLETED\<close>.
\<close>

theorem survey_status_monotone:
  "status_of (fst (create_survey d has_tid fid stype enum tid now))
     (snd (create_survey d has_tid fid stype enum tid now)) = Some ''DRAFT''
   \<and> (status_of d sid = Some st \<longrightarrow>
        status_of (apply_operation d op) sid =
          (if op = CompleteSurvey sid then Some ''COMPLETED'' else Some st))
   \<and> (status_of d sid = Some ''COMPLETED'' \<longrightarrow>
        status_of (run_operations d ops) sid = Some ''COMPLETED'')"
proof (intro conjI impI)
  show "status_of (fst (create_survey d has_tid fid stype enum tid now))
          (snd (create_survey d has_tid fid stype enum tid now)) = Some ''DRAFT''"
    by (rule status_of_create_survey_new)
next
  assume "status_of d sid = Some st"
  then show "status_of (apply_operation d op) sid =
               (if op = CompleteSurvey sid then Some ''COMPLETED'' else Some st)"
    by (rule status_of_apply_operation)
next
  assume "status_of d sid = Some ''COMPLETED''"
  then show "status_of (run_operations d ops) sid = Some ''COMPLETED''"
    by (rule completed_stays)
qed

subsection \<open>Survey detail and the two ways of counting\<close>

lemma dangling_db_eq:
  "dangling_db =
     \<lparr>facilities = [],
      surveys = [\<lparr>s_id = 1, s_facility_id = 999, s_template_id = None, s_survey_type = ''Routine'',
                  s_enumerator_name = ''Ada'', s_status = ''DRAFT'',
                  s_created_at = ''2026-01-01T00:00:00''\<rparr>],
      survey_answers = []\<rparr>"
  by (simp add: dangling_db_def create_survey_def empty_db_def next_rowid_def Let_def)

text \<open>
  C8. The claim is that \<^verbatim>\<open>get_survey_details\<close> raises exactly when no survey has the
  id. The code departs from it: on the store above survey 1 exists, with status
  \<^verbatim>\<open>DRAFT\<close>, and \<^verbatim>\<open>get_survey_details\<close> raises \<^verbatim>\<open>Survey not found.\<close>, because the
  header query joins \<^verbatim>\<open>facilities\<close>. The alert engine, on the same store, resolves the
  missing facility to the placeholder \<^verbatim>\<open>"-"\<close>.
\<close>

theorem get_survey_details_dangling_facility:
  "status_of dangling_db 1 = Some ''DRAFT''
   \<and> get_survey_details dangling_db 1 = Inl (ValueError ''Survey not found.'')
   \<and> facility_name_of dangling_db 999 = ''-''"
  by (simp add: dangling_db_eq status_of_def get_survey_details_def header_rows_def
      facility_name_of_def)

lemma get_survey_details_raises_iff:
  "(\<exists>e. get_survey_details d sid = Inl e) \<longleftrightarrow>
   \<not> (\<exists>s \<in> set (surveys d). s_id s = sid \<and> s_facility_id s \<in> f_id ` set (facilities d))"
proof -
  have "header_rows d sid = [] \<longleftrightarrow>
        \<not> (\<exists>s \<in> set (surveys d). s_id s = sid \<and> s_facility_id s \<in> f_id ` set (facilities d))"
    unfolding header_rows_def by (simp add: filter_empty_conv image_iff) metis
  moreover have "(\<exists>e. get_survey_details d sid = Inl e) \<longleftrightarrow> header_rows d sid = []"
    by (auto simp: get_survey_details_def Let_def split: list.splits)
  ultimately show ?thesis by simp
qed

lemma mixed_case_db_eq:
  "mixed_case_db =
     \<lparr>facilities = [\<lparr>f_id = 1, f_name = ''Clinic A'', f_created_at = ''2026-01-01T00:00:00''\<rparr>],
      surveys = [demo_survey 1 ''Ada''],
      survey_answers =
        [demo_answer 1 1 ''Q1'' ''A'' ''INTERVIEW'' ''low'' 0 None,
         demo_answer 2 1 ''Q2'' ''A'' '' '' ''HIGH'' 0 None]\<rparr>"
  by (simp add: mixed_case_db_def run_operations_def empty_db_def
      create_survey_def add_answer_def complete_survey_def add_facility_def next_rowid_def
      survey_answers_columns_def strip_simps Let_def demo_survey_def demo_answer_def)

lemma mixed_case_answers:
  "answers_of_survey mixed_case_db 1 =
     [demo_answer 1 1 ''Q1'' ''A'' ''INTERVIEW'' ''low'' 0 None,
      demo_answer 2 1 ''Q2'' ''A'' '' '' ''HIGH'' 0 None]"
  by (simp add: mixed_case_db_eq answers_of_survey_def demo_answer_def)

lemma mixed_case_aggregate:
  "answer_aggregate mixed_case_db 1 =
     \<lparr>total = 2, missing = 0, low_conf = 0, no_source = 0, no_conf = 0\<rparr>"
  by (simp add: answer_aggregate_def mixed_case_answers aggregate_of_def demo_answer_def)

lemma mixed_case_summary:
  "qa_summary (map answer_tuple_of (sort_key a_id (answers_of_survey mixed_case_db 1))) =
     \<lparr>total_answers = 2, missing_count = 0, low_confidence_count = 1, no_source_count = 1,
      no_confidence_count = 0\<rparr>"
  by (simp add: mixed_case_answers demo_answer_def qa_summary_def answer_tuple_of_def or_empty_def
      py_strip_def py_isspace_def py_upper_def py_upper_char_def)

lemma mixed_case_header: "header_rows mixed_case_db 1 \<noteq> []"
  by (simp add: header_rows_def mixed_case_db_eq demo_survey_def)

text \<open>
  C2. The claim is that the aggregate query of the alert engine and the quality summary
  give the same five counts. The code departs from it: on the store above the aggregate
  query counts no low-confidence answer and no answer without source, the quality
  summary counts one of each, and the alert engine, with the default thresholds,
  reports nothing.
\<close>

theorem aggregate_differs_from_summary:
  "answer_aggregate mixed_case_db 1 =
     \<lparr>total = 2, missing = 0, low_conf = 0, no_source = 0, no_conf = 0\<rparr>
   \<and> (\<exists>h answers. get_survey_details mixed_case_db 1 =
         Inr (h, answers,
              \<lparr>total_answers = 2, missing_count = 0, low_confidence_count = 1, no_source_count = 1,
               no_confidence_count = 0\<rparr>))
   \<and> qa_alerts_dashboard mixed_case_db ''COMPLETED'' 20 20 10 10 50 = []"
proof -
  have "\<exists>h answers. get_survey_details mixed_case_db 1 =
         Inr (h, answers,
              \<lparr>total_answers = 2, missing_count = 0, low_confidence_count = 1, no_source_count = 1,
               no_confidence_count = 0\<rparr>)"
    using mixed_case_header
    by (cases "header_rows mixed_case_db 1")
       (auto simp: get_survey_details_def Let_def mixed_case_summary)
  moreover have "surveys_with_status mixed_case_db ''COMPLETED'' = [demo_survey 1 ''Ada'']"
    by (simp add: surveys_with_status_def mixed_case_db_eq demo_survey_def)
  then have "qa_alerts_dashboard mixed_case_db ''COMPLETED'' 20 20 10 10 50 = []"
    by (simp add: qa_alerts_dashboard_def ranked_alerts_def scanned_alerts_def norm_completed
        alert_of_survey_def demo_survey_def mixed_case_aggregate pct_def flags_of_def
        py_sort_reverse_def py_slice_to_def Let_def)
  ultimately show ?thesis using mixed_case_aggregate by blast
qed

theorem survey_status_monotone_witness:
  "status_of demo_db 1 = Some ''COMPLETED''
   \<and> status_of (apply_operation demo_db (InitDb ''2026-01-03T00:00:00'')) 1 =
       (if InitDb ''2026-01-03T00:00:00'' = CompleteSurvey 1 then Some ''COMPLETED''
        else Some ''COMPLETED'')
   \<and> status_of (run_operations demo_db more_operations) 1 = Some ''COMPLETED''
   \<and> status_of (fst (create_survey demo_db True 1 ''Routine'' ''Cy'' None ''2026-01-02T00:00:00''))
        (snd (create_survey demo_db True 1 ''Routine'' ''Cy'' None ''2026-01-02T00:00:00'')) =
       Some ''DRAFT''
   \<and> snd (create_survey demo_db True 1 ''Routine'' ''Cy'' None ''2026-01-02T00:00:00'') = 4"
proof -
  have c: "status_of demo_db 1 = Some ''COMPLETED''"
    by (simp add: status_of_def demo_db_def demo_survey_def)
  have n: "snd (create_survey demo_db True 1 ''Routine'' ''Cy'' None ''2026-01-02T00:00:00'') = 4"
    by (simp add: create_survey_def demo_db_def demo_survey_def next_rowid_def Let_def)
  from survey_status_monotone [of demo_db True 1 "''Routine''" "''Cy''" None
      "''2026-01-02T00:00:00''" 1 "''COMPLETED''" "InitDb ''2026-01-03T00:00:00''" more_operations] c n
  show ?thesis by blast
qed

subsection \<open>The enumerator performance aggregator\<close>











end
